theory Spec2Isabelle
  imports Main "HOL-Library.Word"
begin

section \<open>Data model of \<^verbatim>\<open>api/v1alpha1/cueinstance_types.go\<close>\<close>

text \<open>
  Go's \<^verbatim>\<open>time.Duration\<close> is an \<^verbatim>\<open>int64\<close> count of nanoseconds: subtraction wraps
  around and comparison is signed. \<^verbatim>\<open>int64\<close> generations are words of the same width.
  A Go \<^verbatim>\<open>string\<close> is a sequence of bytes and \<^verbatim>\<open>len\<close> counts bytes, as \<open>length\<close>
  does on a \<open>string\<close>. A pointer that the code only compares with \<^verbatim>\<open>nil\<close> and reads
  is an \<open>option\<close>.
\<close>

type_synonym Duration = "64 word"

definition Second :: Duration where
  "Second = 1000000000"

text \<open>An instant of \<^verbatim>\<open>metav1.Time\<close>; \<open>0\<close> stands for the zero value of the type.\<close>

type_synonym Time = int

definition IsZero :: "Time \<Rightarrow> bool" where
  "IsZero t = (t = 0)"

definition MaxConditionMessageLength :: int where
  "MaxConditionMessageLength = 20000"

text \<open>
  \<^verbatim>\<open>metav1.ConditionStatus\<close> is a string type with three named constants;
  \<^verbatim>\<open>meta.ReadyCondition\<close> is the condition type \<^verbatim>\<open>"Ready"\<close>.
\<close>

type_synonym ConditionStatus = string

definition ConditionTrue :: ConditionStatus where
  "ConditionTrue = ''True''"

definition ConditionFalse :: ConditionStatus where
  "ConditionFalse = ''False''"

definition ConditionUnknown :: ConditionStatus where
  "ConditionUnknown = ''Unknown''"

definition ReadyCondition :: string where
  "ReadyCondition = ''Ready''"

text \<open>\<^verbatim>\<open>metav1.Condition\<close>; the fields carry the prefix \<open>Condition_\<close>.\<close>

record Condition =
  Condition_Type :: string
  Condition_Status :: ConditionStatus
  Condition_ObservedGeneration :: "64 word"
  Condition_LastTransitionTime :: Time
  Condition_Reason :: string
  Condition_Message :: string

text \<open>
  Modelled from the spec: \<^verbatim>\<open>ResourceRef\<close> and \<^verbatim>\<open>ResourceInventory\<close> are declared in a
  file of the package that is not under \<^verbatim>\<open>src/\<close>. The spec describes a reference as a
  flat record identifying one applied resource by group, version, kind, namespace and
  name, and an inventory as a record with the list \<^verbatim>\<open>Entries\<close> of such references.
  The functions below never look inside an inventory, they only store the pointer they
  are given.
\<close>

datatype ResourceRef =
  ResourceRef (group: string) (version: string) (kind: string) (namespace: string) (name: string)

record ResourceInventory =
  Entries :: "ResourceRef list"

record CueInstanceSpec =
  Interval :: Duration
  Root :: string
  Path :: string
  Package :: string
  Exprs :: "string list"
  Prune :: bool
  RetryInterval :: "Duration option"
  Timeout :: "Duration option"
  Suspend :: bool
  ServiceAccountName :: string
  Force :: bool

record CueInstanceStatus =
  LastHandledReconcileAt :: string
  ObservedGeneration :: "64 word"
  Conditions :: "Condition list"
  LastAppliedRevision :: string
  LastAttemptedRevision :: string
  Inventory :: "ResourceInventory option"

text \<open>
  \<^verbatim>\<open>CueInstance\<close> embeds \<^verbatim>\<open>metav1.ObjectMeta\<close>; of its fields the code reads
  \<^verbatim>\<open>Namespace\<close>, \<^verbatim>\<open>Name\<close> and \<^verbatim>\<open>Generation\<close>.
\<close>

record CueInstance =
  Namespace :: string
  Name :: string
  Generation :: "64 word"
  Spec :: CueInstanceSpec
  Status :: CueInstanceStatus

section \<open>Defaults of the spec\<close>

text \<open>
  \<^verbatim>\<open>
  func (in CueInstance) GetTimeout() time.Duration {
      duration := in.Spec.Interval.Duration - 30*time.Second
      if in.Spec.Timeout != nil {
          duration = in.Spec.Timeout.Duration
      }
      if duration < 30*time.Second {
          return 30 * time.Second
      }
      return duration
  }
  \<close>
\<close>

definition GetTimeout :: "CueInstance \<Rightarrow> Duration" where
  "GetTimeout k =
     (let duration = Interval (Spec k) - 30 * Second;
          duration = (case Timeout (Spec k) of Some t \<Rightarrow> t | None \<Rightarrow> duration)
      in if duration <s 30 * Second then 30 * Second else duration)"

text \<open>
  \<^verbatim>\<open>
  func (in CueInstance) GetRetryInterval() time.Duration {
      if in.Spec.RetryInterval != nil {
          return in.Spec.RetryInterval.Duration
      }
      return in.Spec.Interval.Duration
  }
  \<close>
\<close>

definition GetRetryInterval :: "CueInstance \<Rightarrow> Duration" where
  "GetRetryInterval k =
     (case RetryInterval (Spec k) of Some r \<Rightarrow> r | None \<Rightarrow> Interval (Spec k))"

section \<open>Message truncation\<close>

text \<open>
  \<^verbatim>\<open>
  func trimString(str string, limit int) string {
      if len(str) <= limit {
          return str
      }
      return str[0:limit] + "..."
  }
  \<close>
  With a negative \<^verbatim>\<open>limit\<close> the comparison fails for every string and the slice
  expression \<^verbatim>\<open>str[0:limit]\<close> panics; otherwise \<^verbatim>\<open>limit < len(str)\<close> and the slice
  is the first \<^verbatim>\<open>limit\<close> bytes.
\<close>

datatype panic = SliceBoundsOutOfRange

definition trimString :: "string \<Rightarrow> int \<Rightarrow> panic + string" where
  "trimString str limit =
     (if int (length str) \<le> limit then Inr str
      else if limit < 0 then Inl SliceBoundsOutOfRange
      else Inr (take (nat limit) str @ ''...''))"

section \<open>Conditions\<close>

text \<open>
  Modelled from the spec: the three functions of this section are not under
  \<^verbatim>\<open>src/\<close>; \<^verbatim>\<open>meta.SetResourceCondition\<close> is imported from
  \<^verbatim>\<open>github.com/fluxcd/pkg/apis/meta\<close> and delegates to \<^verbatim>\<open>FindStatusCondition\<close> and
  \<^verbatim>\<open>SetStatusCondition\<close> of \<^verbatim>\<open>k8s.io/apimachinery/pkg/api/meta\<close>. The spec calls
  \<^verbatim>\<open>Conditions\<close> an ordered set of condition records with one distinguished Ready
  condition carrying status, reason and message: setting a condition overwrites the
  record of that type where there is one and appends a record otherwise. The time of
  the last transition is taken from the clock, here the argument \<open>now\<close>, when the
  record is new or its status changes.

  \<^verbatim>\<open>FindStatusCondition\<close> returns a pointer to the first element of the slice with the
  given type, or \<^verbatim>\<open>nil\<close>; the pointer is the element's index.
\<close>

fun FindStatusCondition :: "Condition list \<Rightarrow> string \<Rightarrow> nat option" where
  "FindStatusCondition [] conditionType = None"
| "FindStatusCondition (c # cs) conditionType =
     (if Condition_Type c = conditionType then Some 0
      else map_option Suc (FindStatusCondition cs conditionType))"

definition SetStatusCondition :: "Time \<Rightarrow> Condition list \<Rightarrow> Condition \<Rightarrow> Condition list" where
  "SetStatusCondition now conditions newCondition =
     (case FindStatusCondition conditions (Condition_Type newCondition) of
        None \<Rightarrow>
          conditions @
            [if IsZero (Condition_LastTransitionTime newCondition)
             then newCondition\<lparr>Condition_LastTransitionTime := now\<rparr>
             else newCondition]
      | Some i \<Rightarrow>
          (let existing = conditions ! i;
               existing =
                 (if Condition_Status existing \<noteq> Condition_Status newCondition
                  then existing
                    \<lparr>Condition_Status := Condition_Status newCondition,
                     Condition_LastTransitionTime :=
                       (if \<not> IsZero (Condition_LastTransitionTime newCondition)
                        then Condition_LastTransitionTime newCondition else now)\<rparr>
                  else existing)
           in conditions[i := existing
                \<lparr>Condition_Reason := Condition_Reason newCondition,
                 Condition_Message := Condition_Message newCondition,
                 Condition_ObservedGeneration := Condition_ObservedGeneration newCondition\<rparr>]))"

text \<open>
  \<^verbatim>\<open>obj.GetStatusConditions()\<close> returns \<^verbatim>\<open>&in.Status.Conditions\<close>; the new condition
  is built with the four given fields and zero values elsewhere.
\<close>

definition SetResourceCondition ::
  "Time \<Rightarrow> CueInstance \<Rightarrow> string \<Rightarrow> ConditionStatus \<Rightarrow> string \<Rightarrow> string \<Rightarrow> CueInstance" where
  "SetResourceCondition now obj condition status reason message =
     (let newCondition =
            \<lparr>Condition_Type = condition, Condition_Status = status,
             Condition_ObservedGeneration = 0, Condition_LastTransitionTime = 0,
             Condition_Reason = reason, Condition_Message = message\<rparr>
      in obj\<lparr>Status := (Status obj)
           \<lparr>Conditions := SetStatusCondition now (Conditions (Status obj)) newCondition\<rparr>\<rparr>)"

text \<open>The record a pointer returned by \<^verbatim>\<open>FindStatusCondition\<close> points to.\<close>

definition condition_of :: "Condition list \<Rightarrow> string \<Rightarrow> Condition option" where
  "condition_of conditions conditionType =
     map_option (\<lambda>i. conditions ! i) (FindStatusCondition conditions conditionType)"

text \<open>The message of the Ready condition of an object, where it has one.\<close>

definition ready_message :: "CueInstance \<Rightarrow> string option" where
  "ready_message k =
     map_option Condition_Message (condition_of (Conditions (Status k)) ReadyCondition)"

section \<open>Status commits\<close>

text \<open>
  \<^verbatim>\<open>
  func SetCueInstanceReadiness(k *CueInstance, status metav1.ConditionStatus,
          reason, message string, revision string) {
      meta.SetResourceCondition(k, meta.ReadyCondition, status, reason,
          trimString(message, MaxConditionMessageLength))
      k.Status.ObservedGeneration = k.Generation
      k.Status.LastAttemptedRevision = revision
  }
  \<close>
  The callers pass the address of their own copy of the object; the model returns the
  updated object. A panic of \<^verbatim>\<open>trimString\<close> ends the call.
\<close>

definition SetCueInstanceReadiness ::
  "Time \<Rightarrow> CueInstance \<Rightarrow> ConditionStatus \<Rightarrow> string \<Rightarrow> string \<Rightarrow> string \<Rightarrow> panic + CueInstance" where
  "SetCueInstanceReadiness now k status reason message revision =
     (case trimString message MaxConditionMessageLength of
        Inl e \<Rightarrow> Inl e
      | Inr m \<Rightarrow>
          (let k = SetResourceCondition now k ReadyCondition status reason m;
               k = k\<lparr>Status := (Status k)\<lparr>ObservedGeneration := Generation k\<rparr>\<rparr>;
               k = k\<lparr>Status := (Status k)\<lparr>LastAttemptedRevision := revision\<rparr>\<rparr>
           in Inr k))"

text \<open>
  \<^verbatim>\<open>
  func CueInstanceNotReady(k CueInstance, revision, reason, message string) CueInstance {
      SetCueInstanceReadiness(&k, metav1.ConditionFalse, reason,
          trimString(message, MaxConditionMessageLength), revision)
      if revision != "" {
          k.Status.LastAttemptedRevision = revision
      }
      return k
  }
  \<close>
\<close>

definition CueInstanceNotReady ::
  "Time \<Rightarrow> CueInstance \<Rightarrow> string \<Rightarrow> string \<Rightarrow> string \<Rightarrow> panic + CueInstance" where
  "CueInstanceNotReady now k revision reason message =
     (case trimString message MaxConditionMessageLength of
        Inl e \<Rightarrow> Inl e
      | Inr m \<Rightarrow>
          (case SetCueInstanceReadiness now k ConditionFalse reason m revision of
             Inl e \<Rightarrow> Inl e
           | Inr k \<Rightarrow>
               (let k = (if revision \<noteq> ''''
                         then k\<lparr>Status := (Status k)\<lparr>LastAttemptedRevision := revision\<rparr>\<rparr>
                         else k)
                in Inr k)))"

text \<open>
  \<^verbatim>\<open>
  func CueInstanceNotReadyInventory(k CueInstance, inventory *ResourceInventory,
          revision, reason, message string) CueInstance {
      SetCueInstanceReadiness(&k, metav1.ConditionFalse, reason,
          trimString(message, MaxConditionMessageLength), revision)
      if revision != "" {
          k.Status.LastAttemptedRevision = revision
      }
      k.Status.Inventory = inventory
      return k
  }
  \<close>
\<close>

definition CueInstanceNotReadyInventory ::
  "Time \<Rightarrow> CueInstance \<Rightarrow> ResourceInventory option \<Rightarrow> string \<Rightarrow> string \<Rightarrow> string
     \<Rightarrow> panic + CueInstance" where
  "CueInstanceNotReadyInventory now k inventory revision reason message =
     (case trimString message MaxConditionMessageLength of
        Inl e \<Rightarrow> Inl e
      | Inr m \<Rightarrow>
          (case SetCueInstanceReadiness now k ConditionFalse reason m revision of
             Inl e \<Rightarrow> Inl e
           | Inr k \<Rightarrow>
               (let k = (if revision \<noteq> ''''
                         then k\<lparr>Status := (Status k)\<lparr>LastAttemptedRevision := revision\<rparr>\<rparr>
                         else k);
                    k = k\<lparr>Status := (Status k)\<lparr>Inventory := inventory\<rparr>\<rparr>
                in Inr k)))"

text \<open>
  \<^verbatim>\<open>
  func CueInstanceReadyInventory(k CueInstance, inventory *ResourceInventory,
          revision, reason, message string) CueInstance {
      SetCueInstanceReadiness(&k, metav1.ConditionTrue, reason,
          trimString(message, MaxConditionMessageLength), revision)
      k.Status.Inventory = inventory
      k.Status.LastAppliedRevision = revision
      return k
  }
  \<close>
\<close>

definition CueInstanceReadyInventory ::
  "Time \<Rightarrow> CueInstance \<Rightarrow> ResourceInventory option \<Rightarrow> string \<Rightarrow> string \<Rightarrow> string
     \<Rightarrow> panic + CueInstance" where
  "CueInstanceReadyInventory now k inventory revision reason message =
     (case trimString message MaxConditionMessageLength of
        Inl e \<Rightarrow> Inl e
      | Inr m \<Rightarrow>
          (case SetCueInstanceReadiness now k ConditionTrue reason m revision of
             Inl e \<Rightarrow> Inl e
           | Inr k \<Rightarrow>
               (let k = k\<lparr>Status := (Status k)\<lparr>Inventory := inventory\<rparr>\<rparr>;
                    k = k\<lparr>Status := (Status k)\<lparr>LastAppliedRevision := revision\<rparr>\<rparr>
                in Inr k)))"

section \<open>A concrete instance\<close>

text \<open>
  An object as the API server would hand it to the controller: generation 3, reconciled
  every five minutes, last applied at revision \<^verbatim>\<open>main/1\<close> for generation 2, with no
  inventory recorded yet. The examples below start from it.
\<close>

definition example_instance :: CueInstance where
  "example_instance =
     \<lparr>Namespace = ''default'', Name = ''podinfo'', Generation = 3,
      Spec = \<lparr>Interval = 300 * Second, Root = [], Path = [], Package = [], Exprs = [],
        Prune = True, RetryInterval = None, Timeout = None, Suspend = False,
        ServiceAccountName = [], Force = False\<rparr>,
      Status = \<lparr>LastHandledReconcileAt = [], ObservedGeneration = 2, Conditions = [],
        LastAppliedRevision = ''main/1'', LastAttemptedRevision = ''main/1'',
        Inventory = None\<rparr>\<rparr>"

section \<open>Truncation: auxiliary facts\<close>

lemma trimString_nonneg:
  "0 \<le> limit \<Longrightarrow>
   trimString str limit =
     Inr (if int (length str) \<le> limit then str else take (nat limit) str @ ''...'')"
  by (simp add: trimString_def)

lemma trimString_cap:
  "trimString str MaxConditionMessageLength =
     Inr (if length str \<le> 20000 then str else take 20000 str @ ''...'')"
  by (simp add: trimString_def MaxConditionMessageLength_def)

text \<open>
  A truncated string is longer than the limit by the three bytes of the marker, so a
  second pass cuts the marker off and appends it again.
\<close>

lemma trimString_again:
  assumes "0 \<le> limit" and "trimString str limit = Inr t"
  shows "trimString t limit = Inr t"
proof (cases "int (length str) \<le> limit")
  case True
  with assms show ?thesis by (simp add: trimString_def)
next
  case False
  with assms have t: "t = take (nat limit) str @ ''...''"
    by (simp add: trimString_def)
  have "\<not> int (length t) \<le> limit"
    using assms(1) False by (simp add: t)
  moreover have "take (nat limit) t = take (nat limit) str"
    using False by (simp add: t)
  ultimately show ?thesis
    using assms(1) by (simp add: trimString_def t)
qed

lemma trimString_cap_again:
  "trimString message MaxConditionMessageLength = Inr m \<Longrightarrow>
   trimString m MaxConditionMessageLength = Inr m"
  by (rule trimString_again) (simp_all add: MaxConditionMessageLength_def)

section \<open>Conditions: auxiliary facts\<close>

lemma FindStatusCondition_Some:
  "FindStatusCondition cs ty = Some i \<Longrightarrow> i < length cs \<and> Condition_Type (cs ! i) = ty"
  by (induction cs arbitrary: i) (auto split: if_splits)

lemma FindStatusCondition_append_new:
  "FindStatusCondition cs ty = None \<Longrightarrow> Condition_Type c = ty \<Longrightarrow>
   FindStatusCondition (cs @ [c]) ty = Some (length cs)"
  by (induction cs) (auto split: if_splits)

lemma FindStatusCondition_update:
  "FindStatusCondition cs ty = Some i \<Longrightarrow> Condition_Type c = ty \<Longrightarrow>
   FindStatusCondition (cs[i := c]) ty = Some i"
proof (induction cs arbitrary: i)
  case Nil
  then show ?case by simp
next
  case (Cons a cs)
  show ?case
  proof (cases "Condition_Type a = ty")
    case True
    with Cons.prems show ?thesis by simp
  next
    case False
    with Cons.prems obtain j where j: "FindStatusCondition cs ty = Some j" "i = Suc j"
      by auto
    with Cons.IH [OF j(1) Cons.prems(2)] False show ?thesis by simp
  qed
qed

text \<open>After a condition is set, the record of its type carries the new fields.\<close>

lemma condition_of_SetStatusCondition:
  "\<exists>c. condition_of (SetStatusCondition now cs new) (Condition_Type new) = Some c
      \<and> Condition_Type c = Condition_Type new
      \<and> Condition_Status c = Condition_Status new
      \<and> Condition_Reason c = Condition_Reason new
      \<and> Condition_Message c = Condition_Message new"
proof (cases "FindStatusCondition cs (Condition_Type new)")
  case None
  then show ?thesis
    by (simp add: condition_of_def SetStatusCondition_def FindStatusCondition_append_new)
next
  case (Some i)
  from FindStatusCondition_Some [OF Some]
  have i: "i < length cs" "Condition_Type (cs ! i) = Condition_Type new"
    by simp_all
  show ?thesis
    using Some i
    by (simp add: condition_of_def SetStatusCondition_def Let_def FindStatusCondition_update)
qed

section \<open>Status commits: auxiliary facts\<close>

text \<open>
  With the cap of 20000 bytes \<^verbatim>\<open>trimString\<close> never panics, so every commit returns;
  this is the object \<^verbatim>\<open>SetCueInstanceReadiness\<close> leaves behind.
\<close>

lemma SetCueInstanceReadiness_Inr:
  "SetCueInstanceReadiness now k status reason message revision =
     Inr (k\<lparr>Status := (Status k)
       \<lparr>Conditions := SetStatusCondition now (Conditions (Status k))
          \<lparr>Condition_Type = ReadyCondition, Condition_Status = status,
           Condition_ObservedGeneration = 0, Condition_LastTransitionTime = 0,
           Condition_Reason = reason,
           Condition_Message =
             (if length message \<le> 20000 then message else take 20000 message @ ''...'')\<rparr>,
        ObservedGeneration := Generation k,
        LastAttemptedRevision := revision\<rparr>\<rparr>)"
  by (simp add: SetCueInstanceReadiness_def trimString_cap SetResourceCondition_def Let_def)

lemma SetCueInstanceReadiness_trimmed:
  assumes "trimString message MaxConditionMessageLength = Inr m"
  shows "SetCueInstanceReadiness now k status reason m revision =
         SetCueInstanceReadiness now k status reason message revision"
  using assms trimString_cap_again [OF assms]
  by (simp add: SetCueInstanceReadiness_def)

text \<open>
  The three wrappers truncate the message themselves before the call; the call truncates
  again and changes nothing. In the two failure wrappers the assignment under
  \<^verbatim>\<open>if revision != ""\<close> repeats what the call has already stored.
\<close>

lemma CueInstanceNotReady_eq:
  "CueInstanceNotReady now k revision reason message =
     SetCueInstanceReadiness now k ConditionFalse reason message revision"
proof -
  obtain m where m: "trimString message MaxConditionMessageLength = Inr m"
    by (simp add: trimString_cap)
  show ?thesis
    by (simp add: CueInstanceNotReady_def m SetCueInstanceReadiness_trimmed [OF m])
       (simp add: SetCueInstanceReadiness_Inr)
qed

lemma CueInstanceNotReadyInventory_eq:
  "CueInstanceNotReadyInventory now k inventory revision reason message =
     map_sum id (\<lambda>k. k\<lparr>Status := (Status k)\<lparr>Inventory := inventory\<rparr>\<rparr>)
       (SetCueInstanceReadiness now k ConditionFalse reason message revision)"
proof -
  obtain m where m: "trimString message MaxConditionMessageLength = Inr m"
    by (simp add: trimString_cap)
  show ?thesis
    by (simp add: CueInstanceNotReadyInventory_def m SetCueInstanceReadiness_trimmed [OF m])
       (simp add: SetCueInstanceReadiness_Inr)
qed

lemma CueInstanceReadyInventory_eq:
  "CueInstanceReadyInventory now k inventory revision reason message =
     map_sum id (\<lambda>k. k\<lparr>Status := (Status k)
          \<lparr>Inventory := inventory, LastAppliedRevision := revision\<rparr>\<rparr>)
       (SetCueInstanceReadiness now k ConditionTrue reason message revision)"
proof -
  obtain m where m: "trimString message MaxConditionMessageLength = Inr m"
    by (simp add: trimString_cap)
  show ?thesis
    by (simp add: CueInstanceReadyInventory_def m SetCueInstanceReadiness_trimmed [OF m])
       (simp add: SetCueInstanceReadiness_Inr)
qed

lemmas commit_eqs =
  CueInstanceNotReady_eq CueInstanceNotReadyInventory_eq CueInstanceReadyInventory_eq
  SetCueInstanceReadiness_Inr

lemma ready_message_SetCueInstanceReadiness:
  "\<exists>k'. SetCueInstanceReadiness now k status reason message revision = Inr k'
      \<and> ready_message k' =
          Some (if length message \<le> 20000 then message else take 20000 message @ ''...'')"
  using condition_of_SetStatusCondition [of now "Conditions (Status k)"
      "\<lparr>Condition_Type = ReadyCondition, Condition_Status = status,
        Condition_ObservedGeneration = 0, Condition_LastTransitionTime = 0,
        Condition_Reason = reason,
        Condition_Message =
          (if length message \<le> 20000 then message else take 20000 message @ ''...'')\<rparr>"]
  by (auto simp: SetCueInstanceReadiness_Inr ready_message_def)

lemma ready_message_Inventory [simp]:
  "ready_message (k\<lparr>Status := (Status k)\<lparr>Inventory := inventory\<rparr>\<rparr>) = ready_message k"
  by (simp add: ready_message_def)

lemma ready_message_LastAppliedRevision [simp]:
  "ready_message (k\<lparr>Status := (Status k)\<lparr>Inventory := inventory, LastAppliedRevision := r\<rparr>\<rparr>)
     = ready_message k"
  by (simp add: ready_message_def)

section \<open>Durations: auxiliary facts\<close>

lemma sint_30s: "sint (30 * Second) = 30000000000"
  by (simp add: Second_def)

text \<open>The subtraction of 30 seconds is exact as long as it stays above the least \<^verbatim>\<open>int64\<close>.\<close>

lemma sint_minus_30s:
  assumes "- (2 ^ 63) + 30000000000 \<le> sint (d :: Duration)"
  shows "sint (d - 30 * Second) = sint d - 30000000000"
proof -
  have "sint d < 2 ^ 63"
    using sint_lt [of d] by simp
  with assms have "signed_take_bit 63 (sint d - 30000000000) = sint d - 30000000000"
    by (intro signed_take_bit_int_eq_self) simp_all
  then show ?thesis
    by (simp add: sint_word_ariths Second_def)
qed

section \<open>Defaults of the spec: the claims\<close>

text \<open>
  Claim C7: for every CueInstance, \<^verbatim>\<open>GetRetryInterval\<close> returns
  \<^verbatim>\<open>Spec.RetryInterval.Duration\<close> when \<^verbatim>\<open>Spec.RetryInterval\<close> is set, and
  \<^verbatim>\<open>Spec.Interval.Duration\<close> otherwise.
\<close>

theorem GetRetryInterval_default:
  "(RetryInterval (Spec k) = Some r \<longrightarrow> GetRetryInterval k = r)
   \<and> (RetryInterval (Spec k) = None \<longrightarrow> GetRetryInterval k = Interval (Spec k))"
  by (simp add: GetRetryInterval_def)

theorem GetRetryInterval_default_witness:
  "RetryInterval (Spec (example_instance\<lparr>Spec := (Spec example_instance)
      \<lparr>RetryInterval := Some (60 * Second)\<rparr>\<rparr>)) = Some (60 * Second)
   \<and> GetRetryInterval (example_instance\<lparr>Spec := (Spec example_instance)
      \<lparr>RetryInterval := Some (60 * Second)\<rparr>\<rparr>) = 60 * Second
   \<and> RetryInterval (Spec example_instance) = None
   \<and> GetRetryInterval example_instance = 300 * Second"
  using GetRetryInterval_default [of "example_instance\<lparr>Spec := (Spec example_instance)
      \<lparr>RetryInterval := Some (60 * Second)\<rparr>\<rparr>" "60 * Second"]
    GetRetryInterval_default [of example_instance]
  by (simp add: example_instance_def)

text \<open>
  Claim C2, as amended: for every CueInstance whose \<^verbatim>\<open>Spec.Timeout\<close> is set,
  \<^verbatim>\<open>GetTimeout\<close> returns \<^verbatim>\<open>Spec.Timeout.Duration\<close> when that duration is at least
  30 seconds, and 30 seconds when it is below. The floor at the end of the function
  applies to an explicit timeout as it does to the default.
\<close>

theorem GetTimeout_explicit_floored:
  "Timeout (Spec k) = Some t \<Longrightarrow>
   GetTimeout k = (if t <s 30 * Second then 30 * Second else t)"
  by (simp add: GetTimeout_def)

theorem GetTimeout_explicit_floored_witness:
  "Timeout (Spec (example_instance\<lparr>Spec := (Spec example_instance)
      \<lparr>Timeout := Some (45 * Second)\<rparr>\<rparr>)) = Some (45 * Second)
   \<and> GetTimeout (example_instance\<lparr>Spec := (Spec example_instance)
      \<lparr>Timeout := Some (45 * Second)\<rparr>\<rparr>) = 45 * Second"
  using GetTimeout_explicit_floored [of "example_instance\<lparr>Spec := (Spec example_instance)
      \<lparr>Timeout := Some (45 * Second)\<rparr>\<rparr>" "45 * Second"]
  by (simp add: Second_def)

text \<open>
  Claim C2 as it was stated fails: with \<^verbatim>\<open>timeout: 10s\<close> the function returns
  30 seconds, not the 10 seconds of the spec.
\<close>

theorem GetTimeout_short_timeout_raised:
  "Timeout (Spec (example_instance\<lparr>Spec := (Spec example_instance)
      \<lparr>Timeout := Some (10 * Second)\<rparr>\<rparr>)) = Some (10 * Second)
   \<and> GetTimeout (example_instance\<lparr>Spec := (Spec example_instance)
      \<lparr>Timeout := Some (10 * Second)\<rparr>\<rparr>) = 30 * Second
   \<and> 30 * Second \<noteq> 10 * Second"
  by (simp add: GetTimeout_def example_instance_def Second_def)

text \<open>
  Claim C4, as amended: for every CueInstance, \<^verbatim>\<open>GetTimeout\<close> returns at least
  30 seconds; when \<^verbatim>\<open>Spec.Timeout\<close> is not set and \<^verbatim>\<open>Spec.Interval.Duration\<close> is at
  least 30 seconds above the least \<^verbatim>\<open>int64\<close> duration, so that the subtraction does
  not wrap around, it returns \<^verbatim>\<open>Spec.Interval.Duration\<close> minus 30 seconds, floored at
  30 seconds. The durations are read as signed numbers of nanoseconds.
\<close>

theorem GetTimeout_default:
  "30 * Second \<le>s GetTimeout k \<and>
   (Timeout (Spec k) = None \<and> - (2 ^ 63) + 30000000000 \<le> sint (Interval (Spec k)) \<longrightarrow>
      sint (GetTimeout k) = max (sint (Interval (Spec k)) - 30000000000) 30000000000)"
  by (auto simp: GetTimeout_def Let_def word_sle_eq word_sless_alt sint_minus_30s sint_30s
      split: option.splits)

theorem GetTimeout_default_witness:
  "- (2 ^ 63) + 30000000000 \<le> sint (Interval (Spec example_instance))
   \<and> Timeout (Spec example_instance) = None
   \<and> sint (GetTimeout example_instance) = 270000000000"
  using GetTimeout_default [of example_instance]
  by (simp add: example_instance_def Second_def)

text \<open>
  Claim C4 as it was stated fails where the subtraction wraps around: with the interval
  \<^verbatim>\<open>-2562047h47m0s\<close>, which is -9223372020000000000 nanoseconds, and no timeout, the
  interval minus 30 seconds floored at 30 seconds is 30 seconds, and the function
  returns 9223372023709551616 nanoseconds, more than 292 years.
\<close>

theorem GetTimeout_interval_wraps:
  "Timeout (Spec (example_instance\<lparr>Spec := (Spec example_instance)
      \<lparr>Interval := - 9223372020000000000\<rparr>\<rparr>)) = None
   \<and> sint (Interval (Spec (example_instance\<lparr>Spec := (Spec example_instance)
      \<lparr>Interval := - 9223372020000000000\<rparr>\<rparr>))) = - 9223372020000000000
   \<and> sint (GetTimeout (example_instance\<lparr>Spec := (Spec example_instance)
      \<lparr>Interval := - 9223372020000000000\<rparr>\<rparr>)) = 9223372023709551616
   \<and> max (- 9223372020000000000 - 30000000000) 30000000000 = (30000000000 :: int)"
  by (simp add: GetTimeout_def example_instance_def Second_def)

section \<open>Message truncation: the claims\<close>

text \<open>
  Claim C9: \<^verbatim>\<open>trimString\<close> is idempotent: for every string and every non-negative
  limit it returns, and truncating its result again with the same limit returns that
  result. So the double truncation of \<^verbatim>\<open>CueInstanceNotReady\<close> and
  \<^verbatim>\<open>CueInstanceNotReadyInventory\<close>, which trim the message before passing it to
  \<^verbatim>\<open>SetCueInstanceReadiness\<close>, stores the message a single truncation gives.
\<close>

theorem trimString_idempotent:
  "(0 \<le> limit \<longrightarrow> (\<exists>t. trimString str limit = Inr t \<and> trimString t limit = Inr t))
   \<and> (\<exists>k' m. CueInstanceNotReady now k revision reason message = Inr k'
        \<and> ready_message k' = Some m \<and> trimString message MaxConditionMessageLength = Inr m)
   \<and> (\<exists>k' m. CueInstanceNotReadyInventory now k inventory revision reason message = Inr k'
        \<and> ready_message k' = Some m \<and> trimString message MaxConditionMessageLength = Inr m)"
proof (intro conjI impI)
  assume "0 \<le> limit"
  then show "\<exists>t. trimString str limit = Inr t \<and> trimString t limit = Inr t"
    using trimString_again [of limit str] by (simp add: trimString_nonneg)
next
  show "\<exists>k' m. CueInstanceNotReady now k revision reason message = Inr k'
        \<and> ready_message k' = Some m \<and> trimString message MaxConditionMessageLength = Inr m"
    using ready_message_SetCueInstanceReadiness [of now k ConditionFalse reason message revision]
    by (auto simp: CueInstanceNotReady_eq trimString_cap)
next
  show "\<exists>k' m. CueInstanceNotReadyInventory now k inventory revision reason message = Inr k'
        \<and> ready_message k' = Some m \<and> trimString message MaxConditionMessageLength = Inr m"
    using ready_message_SetCueInstanceReadiness [of now k ConditionFalse reason message revision]
    by (auto simp: CueInstanceNotReadyInventory_eq trimString_cap)
qed

theorem trimString_idempotent_witness:
  "(0::int) \<le> 5 \<and> trimString ''hello, world'' 5 = Inr ''hello...''
   \<and> trimString ''hello...'' 5 = Inr ''hello...''"
  using trimString_idempotent [of 5 "''hello, world''"] by (simp add: trimString_def)

text \<open>
  Claim C8: for every string strictly longer than \<^verbatim>\<open>MaxConditionMessageLength\<close>
  (20000), the truncated message, as \<^verbatim>\<open>trimString\<close> returns it and as the Ready
  condition stores it, has length exactly 20003: the cap plus the three bytes of the
  marker.
\<close>

theorem truncated_message_length:
  "20000 < length message \<Longrightarrow>
   (\<exists>t. trimString message MaxConditionMessageLength = Inr t \<and> length t = 20003
       \<and> int (length t) = MaxConditionMessageLength + 3)
   \<and> (\<exists>k' m. SetCueInstanceReadiness now k status reason message revision = Inr k'
       \<and> ready_message k' = Some m \<and> length m = 20003)"
proof (intro conjI)
  assume long: "20000 < length message"
  then have "trimString message MaxConditionMessageLength = Inr (take 20000 message @ ''...'')"
    by (simp add: trimString_cap)
  moreover from long have "length (take 20000 message @ ''...'') = 20003"
    by simp
  ultimately show "\<exists>t. trimString message MaxConditionMessageLength = Inr t
      \<and> length t = 20003 \<and> int (length t) = MaxConditionMessageLength + 3"
    by (simp add: MaxConditionMessageLength_def)
  from long show "\<exists>k' m. SetCueInstanceReadiness now k status reason message revision = Inr k'
      \<and> ready_message k' = Some m \<and> length m = 20003"
    using ready_message_SetCueInstanceReadiness [of now k status reason message revision]
    by auto
qed

theorem truncated_message_length_witness:
  "20000 < length (replicate 20001 CHR ''x'')
   \<and> (\<exists>t. trimString (replicate 20001 CHR ''x'') MaxConditionMessageLength = Inr t
        \<and> length t = 20003)
   \<and> (\<exists>k' m. SetCueInstanceReadiness 1 example_instance ConditionFalse ''BuildFailed''
          (replicate 20001 CHR ''x'') ''main/2'' = Inr k'
        \<and> ready_message k' = Some m \<and> length m = 20003)"
  using truncated_message_length [where message = "replicate 20001 CHR ''x''" and now = 1
      and k = example_instance and status = ConditionFalse and reason = "''BuildFailed''"
      and revision = "''main/2''"]
  by auto

text \<open>
  Claim C5: for every message passed to a readiness commit, the commit returns, and the
  message stored in the Ready condition is the original string when its length is at
  most 20000, and otherwise its first 20000 bytes followed by the marker \<^verbatim>\<open>...\<close>; no
  message is rejected. This holds for \<^verbatim>\<open>SetCueInstanceReadiness\<close> and for the three
  commits built on it.
\<close>

theorem ready_message_truncated:
  "(\<exists>k'. SetCueInstanceReadiness now k status reason message revision = Inr k'
        \<and> ready_message k' = Some (if length message \<le> 20000 then message else take 20000 message @ ''...''))
   \<and> (\<exists>k'. CueInstanceNotReady now k revision reason message = Inr k'
        \<and> ready_message k' = Some (if length message \<le> 20000 then message else take 20000 message @ ''...''))
   \<and> (\<exists>k'. CueInstanceNotReadyInventory now k inventory revision reason message = Inr k'
        \<and> ready_message k' = Some (if length message \<le> 20000 then message else take 20000 message @ ''...''))
   \<and> (\<exists>k'. CueInstanceReadyInventory now k inventory revision reason message = Inr k'
        \<and> ready_message k' = Some (if length message \<le> 20000 then message else take 20000 message @ ''...''))"
proof (intro conjI)
  show "\<exists>k'. SetCueInstanceReadiness now k status reason message revision = Inr k'
        \<and> ready_message k' = Some (if length message \<le> 20000 then message else take 20000 message @ ''...'')"
    by (rule ready_message_SetCueInstanceReadiness)
  show "\<exists>k'. CueInstanceNotReady now k revision reason message = Inr k'
        \<and> ready_message k' = Some (if length message \<le> 20000 then message else take 20000 message @ ''...'')"
    unfolding CueInstanceNotReady_eq by (rule ready_message_SetCueInstanceReadiness)
  show "\<exists>k'. CueInstanceNotReadyInventory now k inventory revision reason message = Inr k'
        \<and> ready_message k' = Some (if length message \<le> 20000 then message else take 20000 message @ ''...'')"
    using ready_message_SetCueInstanceReadiness [of now k ConditionFalse reason message revision]
    by (auto simp: CueInstanceNotReadyInventory_eq)
  show "\<exists>k'. CueInstanceReadyInventory now k inventory revision reason message = Inr k'
        \<and> ready_message k' = Some (if length message \<le> 20000 then message else take 20000 message @ ''...'')"
    using ready_message_SetCueInstanceReadiness [of now k ConditionTrue reason message revision]
    by (auto simp: CueInstanceReadyInventory_eq)
qed

section \<open>Status commits: the claims\<close>

text \<open>
  Claim C6: for every CueInstance and every readiness commit, success or failure
  (\<^verbatim>\<open>SetCueInstanceReadiness\<close>, and hence \<^verbatim>\<open>CueInstanceNotReady\<close>,
  \<^verbatim>\<open>CueInstanceNotReadyInventory\<close> and \<^verbatim>\<open>CueInstanceReadyInventory\<close>), the commit
  returns and \<^verbatim>\<open>Status.ObservedGeneration\<close> is the object's current
  \<^verbatim>\<open>Generation\<close>, which the commit does not change.
\<close>

theorem readiness_sets_observed_generation:
  "(\<exists>k'. SetCueInstanceReadiness now k status reason message revision = Inr k'
        \<and> ObservedGeneration (Status k') = Generation k \<and> Generation k' = Generation k)
   \<and> (\<exists>k'. CueInstanceNotReady now k revision reason message = Inr k'
        \<and> ObservedGeneration (Status k') = Generation k \<and> Generation k' = Generation k)
   \<and> (\<exists>k'. CueInstanceNotReadyInventory now k inventory revision reason message = Inr k'
        \<and> ObservedGeneration (Status k') = Generation k \<and> Generation k' = Generation k)
   \<and> (\<exists>k'. CueInstanceReadyInventory now k inventory revision reason message = Inr k'
        \<and> ObservedGeneration (Status k') = Generation k \<and> Generation k' = Generation k)"
  by (simp add: commit_eqs)

text \<open>
  Claim C10: after every successful commit through \<^verbatim>\<open>CueInstanceReadyInventory\<close>
  with revision \<open>r\<close>, \<^verbatim>\<open>Status.LastAppliedRevision\<close> and
  \<^verbatim>\<open>Status.LastAttemptedRevision\<close> are both \<open>r\<close>, hence equal.
\<close>

theorem ready_inventory_revisions_equal:
  "\<exists>k'. CueInstanceReadyInventory now k inventory r reason message = Inr k'
      \<and> LastAppliedRevision (Status k') = r \<and> LastAttemptedRevision (Status k') = r
      \<and> LastAppliedRevision (Status k') = LastAttemptedRevision (Status k')"
  by (simp add: commit_eqs)

text \<open>
  Claim C1, as amended: \<^verbatim>\<open>Status.LastAppliedRevision\<close> is updated only by the
  successful commit \<^verbatim>\<open>CueInstanceReadyInventory\<close>, which stores the revision and the
  inventory it is given; the failure commits leave \<^verbatim>\<open>LastAppliedRevision\<close> at its
  previous value. \<^verbatim>\<open>SetCueInstanceReadiness\<close> and \<^verbatim>\<open>CueInstanceNotReady\<close> leave
  \<^verbatim>\<open>Status.Inventory\<close> at its previous value too, while the failure commit
  \<^verbatim>\<open>CueInstanceNotReadyInventory\<close> replaces it by the inventory it is given.
\<close>

theorem failure_commits_keep_applied_revision:
  "(\<exists>k'. SetCueInstanceReadiness now k status reason message revision = Inr k'
        \<and> LastAppliedRevision (Status k') = LastAppliedRevision (Status k)
        \<and> Inventory (Status k') = Inventory (Status k))
   \<and> (\<exists>k'. CueInstanceNotReady now k revision reason message = Inr k'
        \<and> LastAppliedRevision (Status k') = LastAppliedRevision (Status k)
        \<and> Inventory (Status k') = Inventory (Status k))
   \<and> (\<exists>k'. CueInstanceNotReadyInventory now k inventory revision reason message = Inr k'
        \<and> LastAppliedRevision (Status k') = LastAppliedRevision (Status k)
        \<and> Inventory (Status k') = inventory)
   \<and> (\<exists>k'. CueInstanceReadyInventory now k inventory revision reason message = Inr k'
        \<and> LastAppliedRevision (Status k') = revision
        \<and> Inventory (Status k') = inventory)"
  by (simp add: commit_eqs)

text \<open>
  Claim C1 as it was stated fails: a failure commit through
  \<^verbatim>\<open>CueInstanceNotReadyInventory\<close> on an object without inventory stores the
  inventory it is given.
\<close>

theorem not_ready_inventory_replaces_inventory:
  "Inventory (Status example_instance) = None \<and>
   map_sum id (Inventory \<circ> Status)
     (CueInstanceNotReadyInventory 1 example_instance
        (Some \<lparr>Entries = [ResourceRef ''apps'' ''v1'' ''Deployment'' ''default'' ''podinfo'']\<rparr>)
        ''main/2'' ''ApplyFailed'' ''apply failed'')
   = Inr (Some \<lparr>Entries = [ResourceRef ''apps'' ''v1'' ''Deployment'' ''default'' ''podinfo'']\<rparr>)"
  by (simp add: commit_eqs example_instance_def)

text \<open>
  Claim C3, as amended: for every CueInstance and every readiness commit, success or
  failure, a non-empty revision argument is stored in
  \<^verbatim>\<open>Status.LastAttemptedRevision\<close>; \<^verbatim>\<open>SetCueInstanceReadiness\<close> and the successful
  commit \<^verbatim>\<open>CueInstanceReadyInventory\<close> store the revision argument also when it is
  empty.
\<close>

theorem readiness_sets_attempted_revision:
  "(\<exists>k'. SetCueInstanceReadiness now k status reason message revision = Inr k'
        \<and> LastAttemptedRevision (Status k') = revision)
   \<and> (\<exists>k'. CueInstanceReadyInventory now k inventory revision reason message = Inr k'
        \<and> LastAttemptedRevision (Status k') = revision)
   \<and> (revision \<noteq> [] \<longrightarrow>
        (\<exists>k'. CueInstanceNotReady now k revision reason message = Inr k'
           \<and> LastAttemptedRevision (Status k') = revision)
        \<and> (\<exists>k'. CueInstanceNotReadyInventory now k inventory revision reason message = Inr k'
           \<and> LastAttemptedRevision (Status k') = revision))"
  by (simp add: commit_eqs)

theorem readiness_sets_attempted_revision_witness:
  "''main/2'' \<noteq> []
   \<and> (\<exists>k'. CueInstanceNotReady 1 example_instance ''main/2'' ''BuildFailed'' ''build failed''
          = Inr k' \<and> LastAttemptedRevision (Status k') = ''main/2'')
   \<and> (\<exists>k'. CueInstanceNotReadyInventory 1 example_instance None ''main/2'' ''ApplyFailed''
          ''apply failed'' = Inr k' \<and> LastAttemptedRevision (Status k') = ''main/2'')"
  using readiness_sets_attempted_revision [of 1 example_instance ConditionFalse
      "''BuildFailed''" "''build failed''" "''main/2''" None]
    readiness_sets_attempted_revision [of 1 example_instance ConditionFalse
      "''ApplyFailed''" "''apply failed''" "''main/2''" None]
  by simp

text \<open>
  Claim C3 as it was stated fails: on an object last attempted at \<^verbatim>\<open>main/1\<close>, a commit
  with the empty revision through \<^verbatim>\<open>SetCueInstanceReadiness\<close>, or through the
  successful commit \<^verbatim>\<open>CueInstanceReadyInventory\<close>, leaves
  \<^verbatim>\<open>Status.LastAttemptedRevision\<close> empty.
\<close>

theorem empty_revision_clears_attempted_revision:
  "LastAttemptedRevision (Status example_instance) = ''main/1''
   \<and> map_sum id (LastAttemptedRevision \<circ> Status)
       (SetCueInstanceReadiness 1 example_instance ConditionFalse ''ArtifactFailed''
          ''source not found'' []) = Inr []
   \<and> map_sum id (LastAttemptedRevision \<circ> Status)
       (CueInstanceReadyInventory 1 example_instance None [] ''ReconciliationSucceeded''
          ''applied'') = Inr []"
  by (simp add: commit_eqs example_instance_def)

end
